theory Spec2Isabelle
  imports Complex_Main "HOL-Library.Multiset"
begin

section \<open>Python values shared by both scripts\<close>

text \<open>
  Strings are Python \<open>str\<close> values restricted to the code points below 256, one
  \<open>char\<close> per code point. Exceptions that leave a function are values of \<open>exn\<close>.
\<close>

datatype exn = AttributeError | TypeError | ValueError | IndexError | KeyError

text \<open>
  The value \<open>json.loads\<close> produces. \<open>JNull\<close> is Python's \<open>None\<close>, a \<open>JObj\<close> is a
  \<open>dict\<close> in insertion order. Floats are kept as exact rationals: rounding and the
  non-finite floats are not represented.
\<close>

datatype json =
    JNull
  | JBool bool
  | JInt int
  | JFloat rat
  | JStr string
  | JArr "json list"
  | JObj "(string \<times> json) list"

text \<open>Truth value of a parsed value, as \<open>if tx_data:\<close> tests it.\<close>

fun truthy :: "json \<Rightarrow> bool" where
  "truthy JNull = False"
| "truthy (JBool b) = b"
| "truthy (JInt n) = (n \<noteq> 0)"
| "truthy (JFloat r) = (r \<noteq> 0)"
| "truthy (JStr s) = (s \<noteq> [])"
| "truthy (JArr xs) = (xs \<noteq> [])"
| "truthy (JObj kvs) = (kvs \<noteq> [])"

subsection \<open>String helpers: \<open>strip\<close>, \<open>isdigit\<close>, \<open>int\<close>, \<open>str\<close>, \<open>in\<close>\<close>

definition py_isspace :: "char \<Rightarrow> bool" where
  "py_isspace c = (c \<in> set [CHR 0x09, CHR 0x0A, CHR 0x0B, CHR 0x0C, CHR 0x0D,
                             CHR 0x1C, CHR 0x1D, CHR 0x1E, CHR 0x1F, CHR 0x20,
                             CHR 0x85, CHR 0xA0])"

definition strip :: "string \<Rightarrow> string" where
  "strip s = rev (dropWhile py_isspace (rev (dropWhile py_isspace s)))"

definition ascii_digit :: "char \<Rightarrow> bool" where
  "ascii_digit c = (c \<in> set ''0123456789'')"

text \<open>
  \<open>str.isdigit\<close> also accepts the superscript digits U+00B2, U+00B3 and U+00B9,
  which \<open>int\<close> rejects.
\<close>

definition digit_char :: "char \<Rightarrow> bool" where
  "digit_char c = (ascii_digit c \<or> c \<in> set [CHR 0xB2, CHR 0xB3, CHR 0xB9])"

definition py_isdigit :: "string \<Rightarrow> bool" where
  "py_isdigit s = (s \<noteq> [] \<and> list_all digit_char s)"

definition digit_val :: "char \<Rightarrow> nat" where
  "digit_val c = of_char c - 48"

text \<open>
  \<open>int(s)\<close> on the strings the height query passes to it (they satisfy
  \<open>isdigit\<close>): the decimal value of ASCII digits, \<open>ValueError\<close> otherwise. The cap
  recent interpreters put on the number of digits is not modelled.
\<close>

definition py_int :: "string \<Rightarrow> exn + int" where
  "py_int s =
     (if s \<noteq> [] \<and> list_all ascii_digit s
      then Inr (int (foldl (\<lambda>a c. 10 * a + digit_val c) 0 s))
      else Inl ValueError)"

fun str_nat :: "nat \<Rightarrow> string" where
  "str_nat n =
     (if n < 10 then [''0123456789'' ! n]
      else str_nat (n div 10) @ [''0123456789'' ! (n mod 10)])"

declare str_nat.simps [simp del]

definition str_int :: "int \<Rightarrow> string" where
  "str_int i = (if i < 0 then CHR ''-'' # str_nat (nat (- i)) else str_nat (nat i))"

text \<open>\<open>sub in s\<close> for strings.\<close>

fun contains :: "string \<Rightarrow> string \<Rightarrow> bool" where
  "contains sub [] = (sub = [])"
| "contains sub (c # cs) = (take (length sub) (c # cs) = sub \<or> contains sub cs)"

section \<open>The fetcher: \<open>fetch_data_blocks_transactions.py\<close>\<close>

subsection \<open>Effects\<close>

text \<open>
  What a run does besides returning: lines printed, shell commands started by
  \<open>subprocess.run\<close>, and work handed to the process pool by \<open>executor.submit\<close>.
  The two progress lines carry a percentage formatted with \<open>.2f\<close>; they are kept
  as structured events (label, position, total) instead of text.
\<close>

datatype event =
    Printed string
  | Invoked string
  | Submitted_block int
  | Submitted_tx json
  | Progress_block int nat nat
  | Progress_tx nat nat

type_synonym trace = "event list"

text \<open>
  The outcome of \<open>subprocess.run\<close> on a full command line: it completes with the
  text of stdout and of stderr, or it raises (with the exception's message).
  The shell is a function of the command line: the node answers a repeated
  command the same way within a run.
\<close>

datatype proc_outcome = Completed string string | Raised string

type_synonym shell = "string \<Rightarrow> proc_outcome"

record NexaCLI =
  cli_path :: string
  rpc_user :: string
  rpc_password :: string

definition NexaCLI_init :: "string \<Rightarrow> string \<Rightarrow> string \<Rightarrow> NexaCLI" where
  "NexaCLI_init path user password =
     \<lparr>cli_path = ''\"'' @ path @ ''\"'', rpc_user = user, rpc_password = password\<rparr>"

definition full_command :: "NexaCLI \<Rightarrow> string \<Rightarrow> string" where
  "full_command cli command =
     cli_path cli @ '' -rpcuser='' @ rpc_user cli @ '' -rpcpassword='' @ rpc_password cli
       @ '' '' @ command"

text \<open>
  \<open>run_command\<close>: the result is \<open>Some s\<close> for a returned string and \<open>None\<close> when
  the function falls off its end and Python returns \<open>None\<close>.
\<close>

definition run_command :: "shell \<Rightarrow> NexaCLI \<Rightarrow> string \<Rightarrow> string option \<times> trace" where
  "run_command sh cli command =
     (case sh (full_command cli command) of
        Completed out err \<Rightarrow>
          if out \<noteq> [] then (Some (strip out), [Invoked (full_command cli command)])
          else if err \<noteq> [] then
            (Some [], [Invoked (full_command cli command), Printed (''Error: '' @ strip err)])
          else (None, [Invoked (full_command cli command)])
      | Raised msg \<Rightarrow>
          (Some [], [Invoked (full_command cli command),
                     Printed (''Exception occurred: '' @ msg)]))"

definition get_latest_block_height :: "shell \<Rightarrow> NexaCLI \<Rightarrow> (exn + int option) \<times> trace" where
  "get_latest_block_height sh cli =
     (case run_command sh cli ''getblockcount'' of
        (None, t) \<Rightarrow> (Inl AttributeError, t)
      | (Some output, t) \<Rightarrow>
          if py_isdigit output then
            (case py_int (strip output) of
               Inl e \<Rightarrow> (Inl e, t)
             | Inr h \<Rightarrow> (Inr (Some h), t))
          else (Inr None, t @ [Printed (''Failed to retrieve block count: '' @ output)]))"

text \<open>
  A Python \<open>dict\<close> keyed by height, in insertion order. \<open>dict.update\<close> overwrites
  the value of a key that is present and appends a new key.
\<close>

type_synonym blocks_dict = "(int \<times> json) list"

fun dict_set :: "('k \<times> 'v) list \<Rightarrow> 'k \<Rightarrow> 'v \<Rightarrow> ('k \<times> 'v) list" where
  "dict_set [] k v = [(k, v)]"
| "dict_set ((k', v') # d) k v = (if k' = k then (k, v) # d else (k', v') # dict_set d k v)"

fun dict_update :: "('k \<times> 'v) list \<Rightarrow> ('k \<times> 'v) list \<Rightarrow> ('k \<times> 'v) list" where
  "dict_update d [] = d"
| "dict_update d ((k, v) # kvs) = dict_update (dict_set d k v) kvs"

text \<open>
  \<open>json.loads\<close> is a parameter \<open>loads\<close>: \<open>Inr v\<close> for the parsed value, \<open>Inl msg\<close>
  when it raises \<open>JSONDecodeError\<close> with message \<open>msg\<close>.
\<close>

type_synonym json_loads = "string \<Rightarrow> string + json"

definition get_block_data ::
  "shell \<Rightarrow> NexaCLI \<Rightarrow> json_loads \<Rightarrow> int \<Rightarrow> (exn + blocks_dict) \<times> trace" where
  "get_block_data sh cli loads block_height =
     (case run_command sh cli (''getblockhash '' @ str_int block_height) of
        (None, t1) \<Rightarrow> (Inl AttributeError, t1)
      | (Some out1, t1) \<Rightarrow>
          let block_hash = strip out1 in
          if block_hash = [] then
            (Inr [], t1 @ [Printed (''Failed to retrieve block hash for height ''
                                     @ str_int block_height)])
          else
            (case run_command sh cli (''getblock '' @ block_hash @ '' 1'') of
               (None, t2) \<Rightarrow> (Inl TypeError, t1 @ t2)
             | (Some block_data_output, t2) \<Rightarrow>
                 (case loads block_data_output of
                    Inl msg \<Rightarrow>
                      (Inr [], t1 @ t2 @
                         [Printed (''JSONDecodeError for block '' @ str_int block_height
                                    @ '': '' @ msg),
                          Printed (''Command output: '' @ block_data_output)])
                  | Inr block_data \<Rightarrow> (Inr [(block_height, block_data)], t1 @ t2))))"

text \<open>
  The loop over \<open>as_completed(futures)\<close> of \<open>get_latest_n_blocks\<close>: \<open>len\<close> is
  \<open>len(block_heights)\<close>, \<open>i\<close> the loop index, \<open>d\<close> the dictionary so far. A future's
  \<open>result()\<close> re-raises the worker's exception; \<open>list(block_data.keys())[0]\<close>
  raises \<open>IndexError\<close> on an empty dictionary.
\<close>

fun collect_blocks ::
  "nat \<Rightarrow> nat \<Rightarrow> blocks_dict \<Rightarrow> (exn + blocks_dict) list \<Rightarrow> (exn + blocks_dict) \<times> trace" where
  "collect_blocks len i d [] = (Inr d, [])"
| "collect_blocks len i d (Inl e # rs) = (Inl e, [])"
| "collect_blocks len i d (Inr block_data # rs) =
     (if (i + 1) mod 10 = 0 \<or> i + 1 = len then
        (case block_data of
           [] \<Rightarrow> (Inl IndexError, [])
         | (k, v) # rest \<Rightarrow>
             (case collect_blocks len (i + 1) (dict_update d block_data) rs of
                (res, t) \<Rightarrow> (res, Progress_block k (i + 1) len # t)))
      else collect_blocks len (i + 1) (dict_update d block_data) rs)"

definition str_num_processes :: "nat option \<Rightarrow> string" where
  "str_num_processes p = (case p of None \<Rightarrow> ''None'' | Some k \<Rightarrow> str_nat k)"

definition clamp_warning :: "int \<Rightarrow> int \<Rightarrow> string" where
  "clamp_warning n h =
     ''Warning: Requested '' @ str_int n @ '' blocks, but only '' @ str_int (h + 1)
       @ '' are available. Adjusting to '' @ str_int (h + 1) @ ''.''"

text \<open>
  \<open>get_latest_n_blocks\<close>. The pool runs every submitted call; \<open>sched\<close> is the order
  in which \<open>as_completed\<close> yields them (a rearrangement of the submitted
  heights). The workers' own effects are listed in that order, before the
  progress lines of the collecting loop; the real interleaving of the two is
  not fixed by the program.
\<close>

definition get_latest_n_blocks ::
  "shell \<Rightarrow> NexaCLI \<Rightarrow> json_loads \<Rightarrow> (int list \<Rightarrow> int list) \<Rightarrow> int \<Rightarrow> nat option
     \<Rightarrow> (exn + blocks_dict) \<times> trace" where
  "get_latest_n_blocks sh cli loads sched n num_processes =
     (case get_latest_block_height sh cli of
        (Inl e, t) \<Rightarrow> (Inl e, t)
      | (Inr None, t) \<Rightarrow> (Inr [], t)
      | (Inr (Some latest_block_height), t) \<Rightarrow>
          let warn = (if n > latest_block_height + 1
                      then [Printed (clamp_warning n latest_block_height)] else []);
              n' = (if n > latest_block_height + 1 then latest_block_height + 1 else n);
              block_heights = map (\<lambda>i. latest_block_height - int i) [0..<nat n'];
              start = [Printed (''Starting block data retrieval with ''
                         @ str_num_processes num_processes @ '' parallel processes...'')];
              workers = map (get_block_data sh cli loads) (sched block_heights)
          in (case collect_blocks (length block_heights) 0 [] (map fst workers) of
                (res, tloop) \<Rightarrow>
                  (res, t @ warn @ start @ map Submitted_block block_heights
                          @ concat (map snd workers) @ tloop)))"

subsection \<open>Transactions\<close>

text \<open>
  \<open>str(v)\<close> as an f-string renders it. A string renders as itself and an integer in
  decimal; the rendering of the other values is the parameter \<open>py_str\<close>.
\<close>

definition format_value :: "(json \<Rightarrow> string) \<Rightarrow> json \<Rightarrow> string" where
  "format_value py_str v = (case v of JStr s \<Rightarrow> s | JInt i \<Rightarrow> str_int i | _ \<Rightarrow> py_str v)"

definition tx_command :: "(json \<Rightarrow> string) \<Rightarrow> json \<Rightarrow> string" where
  "tx_command py_str txid = ''getrawtransaction '' @ format_value py_str txid @ '' 1''"

text \<open>\<open>get_transaction_data\<close>; its \<open>return None\<close> is \<open>JNull\<close>.\<close>

definition get_transaction_data ::
  "shell \<Rightarrow> NexaCLI \<Rightarrow> json_loads \<Rightarrow> (json \<Rightarrow> string) \<Rightarrow> json \<Rightarrow> (exn + json) \<times> trace" where
  "get_transaction_data sh cli loads py_str txid =
     (case run_command sh cli (tx_command py_str txid) of
        (None, t) \<Rightarrow> (Inl TypeError, t)
      | (Some output, t) \<Rightarrow>
          if contains ''error code: -5'' output then
            (Inr JNull, t @ [Printed (''getrawtransaction failed for ''
               @ format_value py_str txid
               @ '', transaction might not be indexed or is not in the mempool.'')])
          else if output = [] then
            (Inr JNull, t @ [Printed (''Error: No output for transaction ''
               @ format_value py_str txid)])
          else
            (case loads output of
               Inl msg \<Rightarrow>
                 (Inr JNull, t @
                    [Printed (''JSONDecodeError for transaction ''
                               @ format_value py_str txid @ '': '' @ msg),
                     Printed (''Command output: '' @ output)])
             | Inr transaction_data \<Rightarrow> (Inr transaction_data, t)))"

text \<open>
  Iterating a parsed value in a comprehension: a list gives its items, a string
  its characters, a dict its keys; the other values are not iterable.
\<close>

fun py_iter :: "json \<Rightarrow> exn + json list" where
  "py_iter (JArr xs) = Inr xs"
| "py_iter (JStr s) = Inr (map (\<lambda>c. JStr [c]) s)"
| "py_iter (JObj kvs) = Inr (map (\<lambda>kv. JStr (fst kv)) kvs)"
| "py_iter v = Inl TypeError"

text \<open>\<open>block_data.get('txid', [])\<close>, iterated. Only a dict has \<open>get\<close>.\<close>

definition block_txids :: "json \<Rightarrow> exn + json list" where
  "block_txids block_data =
     (case block_data of
        JObj kvs \<Rightarrow> (case map_of kvs ''txid'' of None \<Rightarrow> Inr [] | Some v \<Rightarrow> py_iter v)
      | _ \<Rightarrow> Inl AttributeError)"

fun all_txids :: "json list \<Rightarrow> exn + json list" where
  "all_txids [] = Inr []"
| "all_txids (block_data # rest) =
     (case block_txids block_data of
        Inl e \<Rightarrow> Inl e
      | Inr ids \<Rightarrow> (case all_txids rest of Inl e \<Rightarrow> Inl e | Inr others \<Rightarrow> Inr (ids @ others)))"

text \<open>
  The loop over \<open>as_completed(futures)\<close> of \<open>get_all_transactions\<close>: \<open>len\<close> is
  \<open>len(txids)\<close>, \<open>i\<close> the loop index, \<open>acc\<close> the list \<open>transactions_data\<close> so far.
\<close>

fun collect_txs ::
  "nat \<Rightarrow> nat \<Rightarrow> json list \<Rightarrow> (exn + json) list \<Rightarrow> (exn + json list) \<times> trace" where
  "collect_txs len i acc [] = (Inr acc, [])"
| "collect_txs len i acc (Inl e # rs) = (Inl e, [])"
| "collect_txs len i acc (Inr tx_data # rs) =
     (case collect_txs len (i + 1) (if truthy tx_data then acc @ [tx_data] else acc) rs of
        (res, t) \<Rightarrow> (res, (if i mod 10 = 0 then [Progress_tx (i + 1) len] else []) @ t))"

definition get_all_transactions ::
  "shell \<Rightarrow> NexaCLI \<Rightarrow> json_loads \<Rightarrow> (json \<Rightarrow> string) \<Rightarrow> (json list \<Rightarrow> json list)
     \<Rightarrow> blocks_dict \<Rightarrow> nat option \<Rightarrow> (exn + json list) \<times> trace" where
  "get_all_transactions sh cli loads py_str sched blocks num_processes =
     (case all_txids (map snd blocks) of
        Inl e \<Rightarrow> (Inl e, [])
      | Inr txids \<Rightarrow>
          let start = [Printed (''Starting transaction data retrieval with ''
                         @ str_num_processes num_processes @ '' parallel processes...'')];
              workers = map (get_transaction_data sh cli loads py_str) (sched txids)
          in (case collect_txs (length txids) 0 [] (map fst workers) of
                (res, tloop) \<Rightarrow>
                  (res, start @ map Submitted_tx txids @ concat (map snd workers) @ tloop)))"

text \<open>The heights handed to the pool, read off a trace.\<close>

fun submitted_heights :: "trace \<Rightarrow> int list" where
  "submitted_heights [] = []"
| "submitted_heights (Submitted_block h # t) = h # submitted_heights t"
| "submitted_heights (e # t) = submitted_heights t"


subsection \<open>A small node, for concrete runs\<close>

text \<open>
  A chain of height 2. Block 2 resolves and parses, block 1 resolves but its
  detail is not JSON, the hash lookup of block 0 fails on stderr. Transaction
  \<open>t1\<close> resolves, \<open>t2\<close> is reported missing on stderr. Every other command
  prints nothing at all.
\<close>

definition example_cli :: NexaCLI where
  "example_cli = NexaCLI_init ''nexa-cli'' ''user'' ''secret''"

definition example_shell :: shell where
  "example_shell c =
     (if c = full_command example_cli ''getblockcount'' then Completed (''2'' @ [CHR 0x0A]) []
      else if c = full_command example_cli ''getblockhash 2'' then Completed (''h2'' @ [CHR 0x0A]) []
      else if c = full_command example_cli ''getblockhash 1'' then Completed (''h1'' @ [CHR 0x0A]) []
      else if c = full_command example_cli ''getblockhash 0''
        then Completed [] ''error: Block height out of range''
      else if c = full_command example_cli ''getblock h2 1'' then Completed ''B2'' []
      else if c = full_command example_cli ''getblock h1 1'' then Completed ''not json'' []
      else if c = full_command example_cli ''getrawtransaction t1 1'' then Completed ''T1'' []
      else if c = full_command example_cli ''getrawtransaction t2 1''
        then Completed [] ''error code: -5''
      else Completed [] [])"

definition example_block :: json where
  "example_block =
     JObj [(''height'', JInt 2), (''txcount'', JInt 2),
           (''txid'', JArr [JStr ''t1'', JStr ''t2''])]"

definition example_tx :: json where
  "example_tx = JObj [(''txid'', JStr ''t1''), (''fee'', JInt 3)]"

definition example_loads :: json_loads where
  "example_loads s =
     (if s = ''B2'' then Inr example_block
      else if s = ''T1'' then Inr example_tx
      else Inl ''Expecting value'')"

definition silent_shell :: shell where
  "silent_shell c = Completed [] []"

section \<open>The data processor: \<open>process_data.py\<close>\<close>

subsection \<open>Frames\<close>

text \<open>
  A record of a JSON file is a \<open>dict\<close>. A frame is what \<open>process_block_data\<close>
  and \<open>process_transaction_data\<close> build: rows in index order, each with its
  index timestamp (seconds since the epoch, as \<open>pd.to_datetime(..., unit='s')\<close>
  reads an integer) and the projected columns. A missing cell (\<open>None\<close> or
  \<open>NaN\<close>) is \<open>JNull\<close>. The tabular operations below follow the documented
  behaviour of the pandas calls the source makes.
\<close>

type_synonym pyrecord = "(string \<times> json) list"

type_synonym frame_row = "int \<times> pyrecord"

type_synonym frame = "frame_row list"

text \<open>
  \<open>Missing_column\<close> is the \<open>KeyError\<close> of selecting a column no record has.
  \<open>Unsupported_time\<close> marks input this embedding does not cover: a \<open>time\<close>
  cell that is not a JSON integer.
\<close>

datatype frame_error = Missing_column string | Unsupported_time

definition cell :: "pyrecord \<Rightarrow> string \<Rightarrow> json" where
  "cell r c = (case map_of r c of None \<Rightarrow> JNull | Some v \<Rightarrow> v)"

text \<open>\<open>pd.DataFrame(records)[cols].copy()\<close>: the columns are the keys of all records.\<close>

definition select_columns :: "string list \<Rightarrow> pyrecord list \<Rightarrow> frame_error + pyrecord list" where
  "select_columns cols records =
     (case find (\<lambda>c. c \<notin> set (concat (map (map fst) records))) cols of
        Some c \<Rightarrow> Inl (Missing_column c)
      | None \<Rightarrow> Inr (map (\<lambda>r. map (\<lambda>c. (c, cell r c)) cols) records))"

text \<open>
  Converting the \<open>time\<close> column with \<open>unit='s'\<close> and making it the index, which
  removes it from the columns.
\<close>

fun index_by_time :: "pyrecord list \<Rightarrow> frame_error + frame" where
  "index_by_time [] = Inr []"
| "index_by_time (r # rs) =
     (case cell r ''time'' of
        JInt t \<Rightarrow>
          (case index_by_time rs of
             Inl e \<Rightarrow> Inl e
           | Inr rows \<Rightarrow> Inr ((t, filter (\<lambda>kv. fst kv \<noteq> ''time'') r) # rows))
      | _ \<Rightarrow> Inl Unsupported_time)"

text \<open>
  \<open>sort_index(ascending=True)\<close> is the parameter \<open>sort_index\<close>: pandas sorts with
  an unstable algorithm by default, so the order of rows with equal timestamps
  is not fixed by the program.
\<close>

definition process_block_data ::
  "(frame \<Rightarrow> frame) \<Rightarrow> pyrecord list \<Rightarrow> frame_error + frame" where
  "process_block_data sort_index block_data =
     (case select_columns [''height'', ''size'', ''txcount'', ''time'', ''mediantime'',
                           ''difficulty''] block_data of
        Inl e \<Rightarrow> Inl e
      | Inr df_filtered_blocks \<Rightarrow>
          (case index_by_time df_filtered_blocks of
             Inl e \<Rightarrow> Inl e
           | Inr indexed \<Rightarrow> Inr (sort_index indexed)))"


subsection \<open>Hourly resampling\<close>

definition hour_floor :: "int \<Rightarrow> int" where
  "hour_floor t = (t div 3600) * 3600"

text \<open>
  \<open>resample('H')\<close>: the rows are put in time order (stably, when the index is not
  already ascending) and cut into the hour bins from the hour of the earliest
  row to the hour of the latest, each bin closed on the left and labelled by
  its start. Hours without rows in between are bins too. An empty frame has no
  bins.
\<close>

definition resample_H :: "frame \<Rightarrow> (int \<times> frame) list" where
  "resample_H df =
     (if df = [] then []
      else
        let rows = sort_key fst df;
            first = hour_floor (fst (hd rows));
            final = hour_floor (fst (last rows))
        in map (\<lambda>k. (first + 3600 * int k,
                      filter (\<lambda>r. first + 3600 * int k \<le> fst r
                                   \<and> fst r < first + 3600 * int k + 3600) rows))
               [0..<nat ((final - first) div 3600) + 1])"

text \<open>
  \<open>pd.to_numeric(..., errors='coerce')\<close> on one cell: \<open>None\<close> is the missing value
  \<open>NaN\<close>. Numbers stay, a boolean counts as 0 or 1, a string is read as a
  number by the parameter \<open>parse\<close> when it is one, everything else is coerced to
  missing.
\<close>

definition to_numeric :: "(string \<Rightarrow> rat option) \<Rightarrow> json \<Rightarrow> rat option" where
  "to_numeric parse v =
     (case v of
        JInt n \<Rightarrow> Some (of_int n)
      | JFloat x \<Rightarrow> Some x
      | JBool b \<Rightarrow> Some (if b then 1 else 0)
      | JStr s \<Rightarrow> parse s
      | _ \<Rightarrow> None)"

definition coerce_column :: "(string \<Rightarrow> rat option) \<Rightarrow> string \<Rightarrow> frame \<Rightarrow> frame" where
  "coerce_column parse c df =
     map (\<lambda>row. (fst row,
                  dict_set (snd row) c
                    (case to_numeric parse (cell (snd row) c) of
                       None \<Rightarrow> JNull
                     | Some x \<Rightarrow> JFloat x))) df"



definition calculate_transactions_per_hour :: "frame \<Rightarrow> (int \<times> nat) list" where
  "calculate_transactions_per_hour df_filtered_transactions =
     map (\<lambda>bin. (fst bin, length (snd bin))) (resample_H df_filtered_transactions)"



text \<open>The rows of a frame whose timestamp lies in the hour starting at \<open>b\<close>.\<close>

definition rows_in_hour :: "int \<Rightarrow> frame \<Rightarrow> frame" where
  "rows_in_hour b df = filter (\<lambda>row. hour_floor (fst row) = b) df"


subsection \<open>Example records\<close>



definition example_blocks :: "pyrecord list" where
  "example_blocks =
     [[(''height'', JInt 3), (''size'', JInt 400), (''txcount'', JInt 1), (''time'', JInt 14500),
       (''mediantime'', JInt 14000), (''difficulty'', JFloat (7 / 2))],
      [(''height'', JInt 1), (''size'', JInt 300), (''txcount'', JInt 2), (''time'', JInt 7200),
       (''mediantime'', JInt 7000), (''difficulty'', JFloat (5 / 2))],
      [(''height'', JInt 2), (''size'', JInt 350), (''txcount'', JInt 1), (''time'', JInt 7300),
       (''mediantime'', JInt 7100), (''difficulty'', JInt 3)]]"



definition example_block_frame :: frame where
  "example_block_frame = projr (process_block_data (sort_key fst) example_blocks)"



section \<open>Properties of the fetcher\<close>

subsection \<open>Traces\<close>

lemma submitted_heights_append:
  "submitted_heights (a @ b) = submitted_heights a @ submitted_heights b"
  by (induction a rule: submitted_heights.induct) auto


lemma run_command_no_submit: "submitted_heights (snd (run_command sh cli c)) = []"
  by (auto simp: run_command_def split: proc_outcome.splits)





subsection \<open>The command executor\<close>

text \<open>
  Whenever the process writes to stdout or to stderr, or \<open>subprocess.run\<close>
  raises, \<open>run_command\<close> returns a string: the trimmed stdout, or the empty
  string after printing the error.
\<close>

lemma run_command_returns_string:
  assumes "sh (full_command cli command) \<noteq> Completed [] []"
  shows "(\<exists>out err. sh (full_command cli command) = Completed out err \<and> out \<noteq> []
            \<and> fst (run_command sh cli command) = Some (strip out))
       \<or> (fst (run_command sh cli command) = Some []
            \<and> (\<exists>msg. Printed msg \<in> set (snd (run_command sh cli command))))"
  using assms by (auto simp: run_command_def split: proc_outcome.splits)

text \<open>
  C3. The claim is that \<open>run_command\<close> always returns a string, also when the
  process produces neither stdout nor stderr. On such a process the function
  reaches the end of its \<open>try\<close> block without a \<open>return\<close>: the result is Python's
  \<open>None\<close>, not a string, for every client and every command.
\<close>

theorem run_command_silent_process:
  "fst (run_command silent_shell cli command) = None"
  by (simp add: run_command_def silent_shell_def)

subsection \<open>The height query\<close>


text \<open>
  When the height query returns a string that is not made of digits only,
  \<open>get_latest_n_blocks\<close> prints the failure and returns the empty mapping, and
  nothing is handed to the pool.
\<close>

lemma get_latest_n_blocks_non_digit_string:
  assumes "fst (run_command sh cli ''getblockcount'') = Some output"
      and "\<not> py_isdigit output"
  shows "fst (get_latest_n_blocks sh cli loads sched n p) = Inr []
       \<and> Printed (''Failed to retrieve block count: '' @ output)
           \<in> set (snd (get_latest_n_blocks sh cli loads sched n p))
       \<and> submitted_heights (snd (get_latest_n_blocks sh cli loads sched n p)) = []"
  using assms run_command_no_submit [of sh cli "''getblockcount''"]
  by (simp add: get_latest_n_blocks_def get_latest_block_height_def case_prod_beta
        submitted_heights_append)

text \<open>
  C10. The claim is that whenever the height query does not return a string of
  digits, \<open>get_latest_n_blocks\<close> logs the failure and returns the empty mapping.
  When the query's process prints nothing on either stream, \<open>run_command\<close>
  returns \<open>None\<close>, \<open>output.isdigit()\<close> raises \<open>AttributeError\<close>, and the
  exception leaves \<open>get_latest_n_blocks\<close>: no mapping is returned.
\<close>

theorem get_latest_n_blocks_silent_height_query:
  "fst (get_latest_n_blocks silent_shell cli loads sched n p) = Inl AttributeError"
  by (simp add: get_latest_n_blocks_def get_latest_block_height_def run_command_def
        silent_shell_def)

subsection \<open>The heights that are fetched\<close>





subsection \<open>Collecting the blocks\<close>

lemma dict_set_keys:
  "map fst (dict_set d k v) = (if k \<in> set (map fst d) then map fst d else map fst d @ [k])"
  by (induction d k v rule: dict_set.induct) auto

lemma dict_set_distinct: "distinct (map fst d) \<Longrightarrow> distinct (map fst (dict_set d k v))"
  by (simp add: dict_set_keys)

lemma dict_update_distinct: "distinct (map fst d) \<Longrightarrow> distinct (map fst (dict_update d kvs))"
  by (induction d kvs rule: dict_update.induct) (simp_all add: dict_set_distinct)

lemma collect_blocks_distinct:
  "distinct (map fst d) \<Longrightarrow> fst (collect_blocks len i d rs) = Inr d' \<Longrightarrow> distinct (map fst d')"
proof (induction rs arbitrary: i d)
  case Nil
  then show ?case by simp
next
  case (Cons r rs)
  show ?case
  proof (cases r)
    case (Inl e)
    with Cons.prems show ?thesis by simp
  next
    case (Inr bd)
    have step: "distinct (map fst (dict_update d bd))"
      using Cons.prems(1) by (rule dict_update_distinct)
    have "fst (collect_blocks len (i + 1) (dict_update d bd) rs) = Inr d'"
      using Cons.prems(2) Inr
      by (cases bd) (auto simp: case_prod_beta split: if_splits)
    with Cons.IH [OF step] show ?thesis by blast
  qed
qed

lemma get_latest_n_blocks_distinct:
  assumes "fst (get_latest_n_blocks sh cli loads sched n p) = Inr d"
  shows "distinct (map fst d)"
proof (cases "fst (get_latest_block_height sh cli)")
  case (Inl e)
  with assms show ?thesis
    by (simp add: get_latest_n_blocks_def case_prod_beta)
next
  case (Inr ho)
  show ?thesis
  proof (cases ho)
    case None
    with Inr assms show ?thesis
      by (simp add: get_latest_n_blocks_def case_prod_beta)
  next
    case (Some H)
    with Inr assms obtain len rs where "fst (collect_blocks len 0 [] rs) = Inr d"
      by (simp add: get_latest_n_blocks_def case_prod_beta Let_def)
    then show ?thesis
      using collect_blocks_distinct [of "[]" len 0 rs d] by simp
  qed
qed

text \<open>
  C4. The claim is that a height whose hash lookup or JSON parse fails only
  costs its entry and that \<open>get_latest_n_blocks\<close> still completes normally. On
  the example node with two blocks requested, block 2 is fetched and the detail
  of block 1 does not parse, so its worker returns the empty dictionary. When
  that empty result is the last to complete, the progress line evaluates
  \<open>list(block_data.keys())[0]\<close> on it and \<open>IndexError\<close> leaves the function:
  the run aborts and block 2 is lost with it.
\<close>

theorem get_latest_n_blocks_failed_fetch_on_progress_line:
  "fst (get_latest_n_blocks example_shell example_cli example_loads id 2 (Some 8))
     = Inl IndexError"
  by code_simp

subsection \<open>Collecting the transactions\<close>

lemma collect_txs_Inr:
  "fst (collect_txs len i acc rs) = Inr res \<Longrightarrow>
     (\<forall>r\<in>set rs. \<exists>v. r = Inr v) \<and> res = acc @ filter truthy (map projr rs)"
proof (induction rs arbitrary: i acc)
  case Nil
  then show ?case by simp
next
  case (Cons r rs)
  show ?case
  proof (cases r)
    case (Inl e)
    with Cons.prems show ?thesis by simp
  next
    case (Inr tx)
    have "fst (collect_txs len (i + 1) (if truthy tx then acc @ [tx] else acc) rs) = Inr res"
      using Cons.prems Inr by (simp add: case_prod_beta)
    from Cons.IH [OF this] show ?thesis
      using Inr by auto
  qed
qed




lemma get_all_transactions_fst:
  "all_txids (map snd blocks) = Inr txids \<Longrightarrow>
   fst (get_all_transactions sh cli loads py_str sched blocks p) =
     fst (collect_txs (length txids) 0 []
            (map (\<lambda>txid. fst (get_transaction_data sh cli loads py_str txid)) (sched txids)))"
  by (simp add: get_all_transactions_def Let_def case_prod_beta comp_def)



text \<open>
  C9. The mapping \<open>get_latest_n_blocks\<close> returns has no height twice among its
  keys. If the blocks list each transaction id at most once, the list
  \<open>get_all_transactions\<close> returns is, record by record, the lookup result of a
  duplicate-free selection of those ids: no id accounts for two records.
\<close>

theorem fetch_batch_unique_keys:
  "(fst (get_latest_n_blocks sh cli loads sched n p) = Inr d \<longrightarrow> distinct (map fst d))
 \<and> (all_txids (map snd blocks) = Inr txids \<and> distinct txids \<and> mset (sched' txids) = mset txids
      \<and> fst (get_all_transactions sh cli loads py_str sched' blocks p') = Inr res
    \<longrightarrow> (\<exists>kept. distinct kept \<and> set kept \<subseteq> set txids
           \<and> res = map (\<lambda>txid. projr (fst (get_transaction_data sh cli loads py_str txid))) kept))"
proof (intro conjI impI)
  assume "fst (get_latest_n_blocks sh cli loads sched n p) = Inr d"
  then show "distinct (map fst d)" by (rule get_latest_n_blocks_distinct)
next
  let ?g = "\<lambda>txid. fst (get_transaction_data sh cli loads py_str txid)"
  assume a: "all_txids (map snd blocks) = Inr txids \<and> distinct txids
      \<and> mset (sched' txids) = mset txids
      \<and> fst (get_all_transactions sh cli loads py_str sched' blocks p') = Inr res"
  then have "fst (collect_txs (length txids) 0 [] (map ?g (sched' txids))) = Inr res"
    using get_all_transactions_fst [of blocks txids sh cli loads py_str sched' p'] by simp
  from collect_txs_Inr [OF this]
  have res: "res = filter truthy (map projr (map ?g (sched' txids)))" by simp
  let ?kept = "filter (\<lambda>txid. truthy (projr (?g txid))) (sched' txids)"
  have d: "distinct (sched' txids)"
    using a by (metis mset_eq_imp_distinct_iff)
  have s: "set (sched' txids) = set txids"
    using a by (metis mset_eq_setD)
  have "distinct ?kept" using d by simp
  moreover have "set ?kept \<subseteq> set txids" using s by auto
  moreover have "res = map (\<lambda>txid. projr (?g txid)) ?kept"
    unfolding res by (simp add: filter_map comp_def)
  ultimately show "\<exists>kept. distinct kept \<and> set kept \<subseteq> set txids
           \<and> res = map (\<lambda>txid. projr (fst (get_transaction_data sh cli loads py_str txid))) kept"
    by blast
qed

theorem fetch_batch_unique_keys_witness:
  "fst (get_latest_n_blocks example_shell example_cli example_loads rev 2 (Some 8))
     = Inr [(2, example_block)]
 \<and> distinct (map fst [(2 :: int, example_block)])
 \<and> all_txids (map snd [(2 :: int, example_block)]) = Inr [JStr ''t1'', JStr ''t2'']
 \<and> distinct [JStr ''t1'', JStr ''t2'']
 \<and> mset (rev [JStr ''t1'', JStr ''t2'']) = mset [JStr ''t1'', JStr ''t2'']
 \<and> fst (get_all_transactions example_shell example_cli example_loads (\<lambda>v. ''?'') rev
           [(2, example_block)] None) = Inr [example_tx]
 \<and> (\<exists>kept. distinct kept \<and> set kept \<subseteq> set [JStr ''t1'', JStr ''t2'']
      \<and> [example_tx] =
          map (\<lambda>txid. projr (fst (get_transaction_data example_shell example_cli example_loads
                                     (\<lambda>v. ''?'') txid))) kept)"
proof -
  have blocks: "fst (get_latest_n_blocks example_shell example_cli example_loads rev 2 (Some 8))
     = Inr [(2, example_block)]"
    by code_simp
  have ids: "all_txids (map snd [(2 :: int, example_block)]) = Inr [JStr ''t1'', JStr ''t2'']"
    by code_simp
  have dist: "distinct [JStr ''t1'', JStr ''t2'']"
    by simp
  have perm: "mset (rev [JStr ''t1'', JStr ''t2'']) = mset [JStr ''t1'', JStr ''t2'']"
    by simp
  have run: "fst (get_all_transactions example_shell example_cli example_loads (\<lambda>v. ''?'') rev
           [(2, example_block)] None) = Inr [example_tx]"
    by code_simp
  show ?thesis
    using blocks ids dist perm run
      fetch_batch_unique_keys [where sh = example_shell and cli = example_cli
        and loads = example_loads and sched = rev and n = 2 and p = "Some 8"
        and d = "[(2, example_block)]" and blocks = "[(2, example_block)]"
        and txids = "[JStr ''t1'', JStr ''t2'']" and sched' = rev and py_str = "\<lambda>v. ''?''"
        and p' = None and res = "[example_tx]"]
    by simp
qed


section \<open>Properties of the data processor\<close>

subsection \<open>Hour bins\<close>

lemma div_3600_unique:
  fixes t q :: int
  shows "(t div 3600 = q) = (3600 * q \<le> t \<and> t < 3600 * q + 3600)"
proof
  assume "t div 3600 = q"
  moreover have "t = 3600 * (t div 3600) + t mod 3600" by simp
  moreover have "0 \<le> t mod 3600" "t mod 3600 < 3600" by simp_all
  ultimately show "3600 * q \<le> t \<and> t < 3600 * q + 3600" by linarith
next
  assume a: "3600 * q \<le> t \<and> t < 3600 * q + 3600"
  have "(t + (- q) * 3600) div 3600 = (- q) + t div 3600"
    by (rule div_mult_self1) simp
  moreover have "(t + (- q) * 3600) div 3600 = 0"
    using a by (intro div_pos_pos_trivial) simp_all
  ultimately show "t div 3600 = q" by linarith
qed

lemma hour_bin:
  assumes "b mod 3600 = 0"
  shows "(b \<le> t \<and> t < b + 3600) = (hour_floor t = b)"
proof -
  have "b = 3600 * (b div 3600)" using assms by auto
  then obtain q where b: "b = 3600 * q" ..
  have "(hour_floor t = b) = (t div 3600 = q)"
    unfolding hour_floor_def b by simp
  then show ?thesis
    unfolding b using div_3600_unique [of t q] by simp
qed

lemma hour_floor_mod: "hour_floor t mod 3600 = 0"
  by (simp add: hour_floor_def)

lemma hour_floor_mono: "s \<le> t \<Longrightarrow> hour_floor s \<le> hour_floor t"
  by (simp add: hour_floor_def zdiv_mono1)

lemma sorted_hd_le:
  "sorted (map f xs) \<Longrightarrow> x \<in> set xs \<Longrightarrow> f (hd xs) \<le> (f x :: int)"
  by (cases xs) auto

lemma sorted_le_last:
  "sorted (map f xs) \<Longrightarrow> x \<in> set xs \<Longrightarrow> (f x :: int) \<le> f (last xs)"
  by (induction xs) (auto split: if_splits)

lemma rows_in_hour_perm:
  "mset xs = mset ys \<Longrightarrow> length (rows_in_hour b xs) = length (rows_in_hour b ys)"
proof -
  assume "mset xs = mset ys"
  then have "mset (rows_in_hour b xs) = mset (rows_in_hour b ys)"
    by (simp add: rows_in_hour_def)
  then show ?thesis by (metis size_mset)
qed

lemma bin_filter:
  "filter (\<lambda>r. hour_floor s + 3600 * int k \<le> fst r \<and> fst r < hour_floor s + 3600 * int k + 3600) rows
     = rows_in_hour (hour_floor s + 3600 * int k) rows"
proof -
  have "(hour_floor s + 3600 * int k) mod 3600 = 0"
    by (simp add: hour_floor_def)
  from hour_bin [OF this] show ?thesis
    by (simp add: rows_in_hour_def)
qed

lemma resample_H_bins:
  assumes "df \<noteq> []"
  shows "resample_H df =
     map (\<lambda>k. (hour_floor (fst (hd (sort_key fst df))) + 3600 * int k,
                rows_in_hour (hour_floor (fst (hd (sort_key fst df))) + 3600 * int k)
                  (sort_key fst df)))
         [0..<nat ((hour_floor (fst (last (sort_key fst df)))
                     - hour_floor (fst (hd (sort_key fst df)))) div 3600) + 1]"
proof -
  have "(df = []) = False" using assms by simp
  then show ?thesis
    unfolding resample_H_def Let_def bin_filter by (simp only: if_False)
qed

lemma resample_H_keys:
  assumes "df \<noteq> []"
  shows "map fst (resample_H df) =
     map (\<lambda>k. hour_floor (fst (hd (sort_key fst df))) + 3600 * int k)
         [0..<nat ((hour_floor (fst (last (sort_key fst df)))
                     - hour_floor (fst (hd (sort_key fst df)))) div 3600) + 1]"
  unfolding resample_H_bins [OF assms] by (simp add: comp_def del: upt_Suc)

lemma resample_H_empty: "resample_H [] = []"
  by (simp add: resample_H_def)

lemma resample_H_member:
  assumes "(b, rs) \<in> set (resample_H df)"
  shows "rs = rows_in_hour b (sort_key fst df)"
proof (cases "df = []")
  case True
  with assms show ?thesis by (simp add: resample_H_empty)
next
  case False
  from assms show ?thesis
    unfolding resample_H_bins [OF False] by auto
qed

lemma resample_H_distinct: "distinct (map fst (resample_H df))"
proof (cases "df = []")
  case True
  then show ?thesis by (simp add: resample_H_empty)
next
  case False
  have "inj_on (\<lambda>k. hour_floor (fst (hd (sort_key fst df))) + 3600 * int k) A" for A
    by (rule inj_onI) simp
  then show ?thesis
    unfolding resample_H_keys [OF False] by (simp add: distinct_map del: upt_Suc)
qed

lemma resample_H_covers:
  assumes "r \<in> set df"
  shows "hour_floor (fst r) \<in> fst ` set (resample_H df)"
proof -
  let ?rows = "sort_key fst df"
  let ?f = "fst (hd ?rows) div 3600"
  let ?l = "fst (last ?rows) div 3600"
  let ?a = "fst r div 3600"
  have ne: "df \<noteq> []" using assms by auto
  have r: "r \<in> set ?rows" using assms by simp
  have s: "sorted (map fst ?rows)" by simp
  have "fst (hd ?rows) \<le> fst r" using s r by (rule sorted_hd_le)
  then have fa: "?f \<le> ?a" by (rule zdiv_mono1) simp
  have "fst r \<le> fst (last ?rows)" using s r by (rule sorted_le_last)
  then have al: "?a \<le> ?l" by (rule zdiv_mono1) simp
  have n: "(hour_floor (fst (last ?rows)) - hour_floor (fst (hd ?rows))) div 3600 = ?l - ?f"
  proof -
    have "hour_floor (fst (last ?rows)) - hour_floor (fst (hd ?rows)) = (?l - ?f) * 3600"
      by (simp add: hour_floor_def left_diff_distrib)
    then show ?thesis by simp
  qed
  let ?k = "nat (?a - ?f)"
  have "?k < nat (?l - ?f) + 1" using fa al by linarith
  then have k: "?k \<in> set [0..<nat (?l - ?f) + 1]" by (simp only: set_upt atLeastLessThan_iff) simp
  have b: "hour_floor (fst (hd ?rows)) + 3600 * int ?k = hour_floor (fst r)"
    using fa by (simp add: hour_floor_def)
  have "hour_floor (fst r)
          \<in> (\<lambda>k. hour_floor (fst (hd ?rows)) + 3600 * int k) ` set [0..<nat (?l - ?f) + 1]"
    using k b [symmetric]
    by (rule rev_image_eqI [where f = "\<lambda>k. hour_floor (fst (hd ?rows)) + 3600 * int k"])
  then have "hour_floor (fst r) \<in> set (map fst (resample_H df))"
    unfolding resample_H_keys [OF ne] n by (simp only: set_map)
  then show ?thesis by (simp only: set_map)
qed



subsection \<open>Transactions per hour\<close>

lemma calculate_transactions_per_hour_member:
  assumes "(b, c) \<in> set (calculate_transactions_per_hour df)"
  shows "c = length (rows_in_hour b df)"
proof -
  from assms obtain rs where "(b, rs) \<in> set (resample_H df)" and c: "c = length rs"
    by (auto simp: calculate_transactions_per_hour_def)
  then have "rs = rows_in_hour b (sort_key fst df)" by (simp add: resample_H_member)
  then show ?thesis
    using c rows_in_hour_perm [of "sort_key fst df" df b] by simp
qed

text \<open>
  C6. Every bin of \<open>calculate_transactions_per_hour\<close> carries the number of rows
  of the frame whose timestamp falls in that hour; every row's hour is one of
  the bins, and no hour has two bins. (Hours without rows between the first and
  the last hour are bins with count 0.)
\<close>

theorem transactions_per_hour_counts:
  "(\<forall>b c. (b, c) \<in> set (calculate_transactions_per_hour df) \<longrightarrow> c = length (rows_in_hour b df))
 \<and> (\<forall>r\<in>set df. hour_floor (fst r) \<in> fst ` set (calculate_transactions_per_hour df))
 \<and> distinct (map fst (calculate_transactions_per_hour df))"
proof (intro conjI allI impI ballI)
  fix b c
  assume "(b, c) \<in> set (calculate_transactions_per_hour df)"
  then show "c = length (rows_in_hour b df)" by (rule calculate_transactions_per_hour_member)
next
  fix r
  assume "r \<in> set df"
  then have "hour_floor (fst r) \<in> fst ` set (resample_H df)" by (rule resample_H_covers)
  then show "hour_floor (fst r) \<in> fst ` set (calculate_transactions_per_hour df)"
    by (force simp: calculate_transactions_per_hour_def)
next
  show "distinct (map fst (calculate_transactions_per_hour df))"
    using resample_H_distinct [of df]
    by (simp add: calculate_transactions_per_hour_def comp_def)
qed

theorem transactions_per_hour_counts_witness:
  "(7200, 2) \<in> set (calculate_transactions_per_hour example_block_frame)
 \<and> (10800, 0) \<in> set (calculate_transactions_per_hour example_block_frame)
 \<and> length (rows_in_hour 7200 example_block_frame) = 2
 \<and> length (rows_in_hour 10800 example_block_frame) = 0
 \<and> distinct (map fst (calculate_transactions_per_hour example_block_frame))"
proof -
  have a: "(7200, 2) \<in> set (calculate_transactions_per_hour example_block_frame)"
    by code_simp
  have b: "(10800, 0) \<in> set (calculate_transactions_per_hour example_block_frame)"
    by code_simp
  show ?thesis
    using a b transactions_per_hour_counts [of example_block_frame]
    by auto
qed

subsection \<open>Hourly volume and fees\<close>




lemma coerce_column_times: "map fst (coerce_column parse c df) = map fst df"
  by (simp add: coerce_column_def comp_def)
















subsection \<open>Hourly closing difficulty\<close>









end
